theory Spec2Isabelle
  imports Complex_Main "HOL-Library.Word" "HOL-Library.AList"
begin

section \<open>Peer sessions (peer_connection.cpp)\<close>

text \<open>
  The C++ integer types are words: \<open>uint32_t\<close> and \<open>guint\<close> are \<open>32 word\<close>,
  \<open>uint64_t\<close> and \<open>size_t\<close> are \<open>64 word\<close>, and \<open>int\<close> is a \<open>32 word\<close> read
  with \<open>sint\<close>. Exceptions derived from \<open>std::exception\<close> are values.
\<close>

type_synonym u32 = "32 word"
type_synonym u64 = "64 word"
type_synonym c_int = "32 word"

datatype exn = StdException string

text \<open>
  \<open>rtc::Track\<close> belongs to the WebRTC library. The model keeps the two things the
  session asks of it: whether \<open>isOpen()\<close> holds, and whether \<open>send\<close> throws.
\<close>

record track =
  is_open :: bool
  send_throws :: bool

record peer_stats =
  rtp_packets_sent :: u64
  bytes_sent :: u64
  state :: string

record PeerConnection =
  peer_id :: string
  ssrc :: u32
  video_track :: "track option"
  rtp_timestamp :: u32
  needs_keyframe :: bool
  connected :: bool
  closed :: bool
  stats :: peer_stats

text \<open>
  Modelled from the spec: \<open>rtc::H264RtpPacketizer::defaultClockRate\<close> is declared by
  the WebRTC library, not under src/; the spec gives the clock rate as 90 kHz. It
  is an unsigned 32-bit constant, promoted to 64 bits in the product below.
\<close>

definition defaultClockRate :: u64 where
  "defaultClockRate = 90000"

text \<open>\<open>std::atomic<uint32_t>::fetch_add\<close>: the old value, and the counter advanced.\<close>

definition fetch_add :: "u32 \<Rightarrow> u32 \<Rightarrow> u32 \<times> u32" where
  "fetch_add c d = (c, c + d)"

definition next_ssrc_init :: u32 where
  "next_ssrc_init = 42"

text \<open>
  What the library decides during construction: whether \<open>setup_connection\<close> throws,
  and the start timestamp the packetization config is created with.
\<close>

record ctor_env =
  setup_error :: "string option"
  start_timestamp :: u32

text \<open>
  The constructor. The member initialiser draws the SSRC from the static counter
  before \<open>setup_connection\<close> runs, so the counter advances also when that throws.
\<close>

definition PeerConnection_ctor ::
  "string \<Rightarrow> ctor_env \<Rightarrow> u32 \<Rightarrow> (exn + PeerConnection) \<times> u32" where
  "PeerConnection_ctor pid env next_ssrc =
     (let (s, next') = fetch_add next_ssrc 1 in
      (case setup_error env of
         Some what \<Rightarrow> (Inl (StdException what), next')
       | None \<Rightarrow>
           (Inr \<lparr> peer_id = pid, ssrc = s,
                  video_track = Some \<lparr> is_open = False, send_throws = False \<rparr>,
                  rtp_timestamp = start_timestamp env,
                  needs_keyframe = True, connected = False, closed = False,
                  stats = \<lparr> rtp_packets_sent = 0, bytes_sent = 0, state = ''new'' \<rparr> \<rparr>,
            next')))"

definition is_connected :: "PeerConnection \<Rightarrow> bool" where
  "is_connected p = connected p"

definition is_closed :: "PeerConnection \<Rightarrow> bool" where
  "is_closed p = closed p"

text \<open>
  \<open>send_h264_nal(data, size, timestamp_us)\<close>. The product and the quotient are
  64-bit unsigned; the cast keeps the low 32 bits. The timestamp is stored before
  the track's \<open>send\<close>, the counters after it; an exception of \<open>send\<close> is caught.
\<close>

definition send_h264_nal :: "PeerConnection \<Rightarrow> 8 word list \<Rightarrow> u64 \<Rightarrow> PeerConnection" where
  "send_h264_nal p data timestamp_us =
     (case video_track p of
        None \<Rightarrow> p
      | Some t \<Rightarrow>
          if \<not> connected p \<or> \<not> is_open t then p
          else
            let p1 = p\<lparr> rtp_timestamp :=
                         ucast ((timestamp_us * defaultClockRate) div 1000000) \<rparr>
            in if send_throws t then p1
               else p1\<lparr> stats := (stats p1)
                         \<lparr> rtp_packets_sent := rtp_packets_sent (stats p1) + 1,
                           bytes_sent := bytes_sent (stats p1) + of_nat (length data) \<rparr> \<rparr>)"

text \<open>\<open>handle_answer\<close> installs the remote description and re-arms the keyframe flag.\<close>

definition handle_answer :: "PeerConnection \<Rightarrow> string \<Rightarrow> PeerConnection" where
  "handle_answer p sdp = p\<lparr> needs_keyframe := True \<rparr>"

text \<open>The library's state-change callback, as \<open>setup_connection\<close> installs it.\<close>

datatype rtc_state = New | Connecting | Connected | Disconnected | Failed | Closed

fun state_str :: "rtc_state \<Rightarrow> string" where
  "state_str New = ''new''"
| "state_str Connecting = ''connecting''"
| "state_str Connected = ''connected''"
| "state_str Disconnected = ''disconnected''"
| "state_str Failed = ''failed''"
| "state_str Closed = ''closed''"

definition onStateChange :: "PeerConnection \<Rightarrow> rtc_state \<Rightarrow> PeerConnection" where
  "onStateChange p st =
     p\<lparr> connected := (st = Connected),
        closed := (closed p \<or> st = Closed \<or> st = Failed),
        stats := (stats p)\<lparr> state := state_str st \<rparr> \<rparr>"

text \<open>The track's \<open>onOpen\<close> callback; the library has opened the track.\<close>

definition onOpen :: "PeerConnection \<Rightarrow> PeerConnection" where
  "onOpen p =
     p\<lparr> video_track := map_option (\<lambda>t. t\<lparr> is_open := True \<rparr>) (video_track p),
        needs_keyframe := True \<rparr>"

text \<open>
  The library changes the transport under the session: the track opens or
  closes, and its \<open>send\<close> starts or stops throwing.
\<close>

definition track_changed :: "PeerConnection \<Rightarrow> bool \<Rightarrow> bool \<Rightarrow> PeerConnection" where
  "track_changed p opn thr =
     p\<lparr> video_track :=
          map_option (\<lambda>t. \<lparr> is_open = opn, send_throws = thr \<rparr>) (video_track p) \<rparr>"

section \<open>Configuration (config.hpp)\<close>

record VideoConfig =
  bitrate_kbps :: c_int
  max_bitrate_kbps :: c_int
  min_bitrate_kbps :: c_int

record WebRtcConfig =
  stun_server :: string
  turn_server :: string
  turn_username :: string
  turn_credential :: string
  max_peers :: c_int
  video :: VideoConfig

record RtspConfig =
  url :: string
  reconnect_interval_ms :: c_int
  reconnect_max_attempts :: c_int

record EncodingConfig =
  hw_encode :: bool
  passthrough :: bool

record AppConfig =
  rtsp :: RtspConfig
  webrtc :: WebRtcConfig
  encoding :: EncodingConfig

text \<open>The default member initialisers of the structs.\<close>

definition default_config :: AppConfig where
  "default_config =
     \<lparr> rtsp = \<lparr> url = '''', reconnect_interval_ms = 3000, reconnect_max_attempts = 0 \<rparr>,
       webrtc = \<lparr> stun_server = ''stun:stun.cloudflare.com:3478'', turn_server = '''',
                  turn_username = '''', turn_credential = '''', max_peers = 4,
                  video = \<lparr> bitrate_kbps = 4000, max_bitrate_kbps = 8000,
                            min_bitrate_kbps = 500 \<rparr> \<rparr>,
       encoding = \<lparr> hw_encode = False, passthrough = True \<rparr> \<rparr>"

section \<open>Peer registry (webrtc_server.cpp)\<close>

text \<open>
  \<open>generate_peer_id\<close> prints a random 32-bit draw as eight hexadecimal digits after
  \<open>peer-\<close>. The draw is an input of the model.
\<close>

definition hex_digit :: "nat \<Rightarrow> char" where
  "hex_digit n = ''0123456789abcdef'' ! (n mod 16)"

definition generate_peer_id :: "u32 \<Rightarrow> string" where
  "generate_peer_id r =
     ''peer-'' @ map (\<lambda>i. hex_digit (unat r div 16 ^ i)) [7, 6, 5, 4, 3, 2, 1, 0]"

text \<open>
  The server: \<open>peers_\<close> is an \<open>unordered_map\<close>, here an association list with one
  entry per key (\<open>AList.update\<close> overwrites, as \<open>operator[]\<close> does), so that
  \<open>peers_.size()\<close> is its length. \<open>next_ssrc\<close> is the static counter of
  \<open>PeerConnection\<close>, kept beside the map because \<open>create_peer\<close> advances it.
\<close>

record WebRtcServer =
  peers :: "(string \<times> PeerConnection) list"
  running :: bool
  next_ssrc :: u32

definition WebRtcServer_init :: WebRtcServer where
  "WebRtcServer_init = \<lparr> peers = [], running = False, next_ssrc = next_ssrc_init \<rparr>"

text \<open>
  \<open>create_peer\<close>: the cap is checked on \<open>static_cast<int>(peers_.size())\<close> with a
  signed comparison; the empty string is returned both on refusal and when the
  constructor throws.
\<close>

definition create_peer ::
  "AppConfig \<Rightarrow> u32 \<Rightarrow> ctor_env \<Rightarrow> WebRtcServer \<Rightarrow> string \<times> WebRtcServer" where
  "create_peer cfg rnd env s =
     (if word_sle (max_peers (webrtc cfg)) (word_of_nat (length (peers s)) :: c_int)
      then ('''', s)
      else
        let pid = generate_peer_id rnd in
        (case PeerConnection_ctor pid env (next_ssrc s) of
           (Inr peer, n) \<Rightarrow>
             (pid, s\<lparr> peers := AList.update pid peer (peers s), next_ssrc := n \<rparr>)
         | (Inl e, n) \<Rightarrow> ('''', s\<lparr> next_ssrc := n \<rparr>)))"

definition remove_peer :: "string \<Rightarrow> WebRtcServer \<Rightarrow> WebRtcServer" where
  "remove_peer pid s = s\<lparr> peers := AList.delete pid (peers s) \<rparr>"

definition server_handle_answer :: "string \<Rightarrow> string \<Rightarrow> WebRtcServer \<Rightarrow> WebRtcServer" where
  "server_handle_answer pid sdp s =
     s\<lparr> peers := AList.map_entry pid (\<lambda>p. handle_answer p sdp) (peers s) \<rparr>"

text \<open>
  The loop of \<open>broadcast_nal\<close>. Beside the updated peers it returns the ids on which
  \<open>send_h264_nal\<close> was called, in iteration order.
\<close>

fun broadcast_loop ::
  "(string \<times> PeerConnection) list \<Rightarrow> 8 word list \<Rightarrow> u64 \<Rightarrow>
     string list \<times> (string \<times> PeerConnection) list" where
  "broadcast_loop [] dat ts = ([], [])"
| "broadcast_loop ((pid, peer) # ps) dat ts =
     (let (calls, ps') = broadcast_loop ps dat ts in
      if is_connected peer
      then (pid # calls, (pid, send_h264_nal peer dat ts) # ps')
      else (calls, (pid, peer) # ps'))"

definition broadcast_nal :: "8 word list \<Rightarrow> u64 \<Rightarrow> WebRtcServer \<Rightarrow> string list \<times> WebRtcServer" where
  "broadcast_nal dat ts s =
     (let (calls, ps') = broadcast_loop (peers s) dat ts in (calls, s\<lparr> peers := ps' \<rparr>))"

text \<open>One pass of the reaper's locked block, and \<open>start\<close> and \<open>stop\<close>.\<close>

definition cleanup_pass :: "WebRtcServer \<Rightarrow> WebRtcServer" where
  "cleanup_pass s = s\<lparr> peers := filter (\<lambda>(pid, p). \<not> is_closed p) (peers s) \<rparr>"

definition server_start :: "WebRtcServer \<Rightarrow> WebRtcServer" where
  "server_start s = s\<lparr> running := True \<rparr>"

definition server_stop :: "WebRtcServer \<Rightarrow> WebRtcServer" where
  "server_stop s = s\<lparr> running := False, peers := [] \<rparr>"

text \<open>
  Everything that can happen to the registry between two observations: the calls
  of its interface, and the library's callbacks and changes on one of its
  sessions. (\<open>start_offer\<close>, \<open>handle_candidate\<close> and the two statistics calls change
  nothing the model holds.)
\<close>

datatype registry_op =
    OpCreate u32 ctor_env
  | OpRemove string
  | OpAnswer string string
  | OpBroadcast "8 word list" u64
  | OpCleanup
  | OpStart
  | OpStop
  | OpStateChange string rtc_state
  | OpTrackOpen string
  | OpTransport string bool bool

fun apply_op :: "AppConfig \<Rightarrow> registry_op \<Rightarrow> WebRtcServer \<Rightarrow> WebRtcServer" where
  "apply_op cfg (OpCreate rnd env) s = snd (create_peer cfg rnd env s)"
| "apply_op cfg (OpRemove pid) s = remove_peer pid s"
| "apply_op cfg (OpAnswer pid sdp) s = server_handle_answer pid sdp s"
| "apply_op cfg (OpBroadcast dat ts) s = snd (broadcast_nal dat ts s)"
| "apply_op cfg OpCleanup s = cleanup_pass s"
| "apply_op cfg OpStart s = server_start s"
| "apply_op cfg OpStop s = server_stop s"
| "apply_op cfg (OpStateChange pid st) s =
     s\<lparr> peers := AList.map_entry pid (\<lambda>p. onStateChange p st) (peers s) \<rparr>"
| "apply_op cfg (OpTrackOpen pid) s =
     s\<lparr> peers := AList.map_entry pid onOpen (peers s) \<rparr>"
| "apply_op cfg (OpTransport pid opn thr) s =
     s\<lparr> peers := AList.map_entry pid (\<lambda>p. track_changed p opn thr) (peers s) \<rparr>"

inductive reachable :: "AppConfig \<Rightarrow> WebRtcServer \<Rightarrow> bool" for cfg :: AppConfig where
  reachable_init: "reachable cfg WebRtcServer_init"
| reachable_step: "reachable cfg s \<Longrightarrow> reachable cfg (apply_op cfg ev s)"

text \<open>The invariant of the registry: one entry per id, and no more entries than the cap.\<close>

definition registry_inv :: "AppConfig \<Rightarrow> WebRtcServer \<Rightarrow> bool" where
  "registry_inv cfg s \<longleftrightarrow>
     distinct (map fst (peers s)) \<and> int (length (peers s)) \<le> sint (max_peers (webrtc cfg))"

text \<open>
  The registry after a list of operations, and the invariant that ties its
  sessions to the counter while the counter has not wrapped: every SSRC in the
  map is below the counter, and no two are equal.
\<close>

definition run_ops :: "AppConfig \<Rightarrow> registry_op list \<Rightarrow> WebRtcServer" where
  "run_ops cfg ops = fold (apply_op cfg) ops WebRtcServer_init"

definition ssrc_inv :: "nat \<Rightarrow> WebRtcServer \<Rightarrow> bool" where
  "ssrc_inv n s \<longleftrightarrow>
     42 \<le> unat (next_ssrc s) \<and> unat (next_ssrc s) \<le> 42 + n
     \<and> list_all (\<lambda>x. unat x < unat (next_ssrc s)) (map (\<lambda>(pid, p). ssrc p) (peers s))
     \<and> distinct (map (\<lambda>(pid, p). ssrc p) (peers s))"

text \<open>
  A run of constructions in one process, each drawing from the counter the one
  before left: the results in order, and the counter after the last.
\<close>

fun construct_run ::
  "(string \<times> ctor_env) list \<Rightarrow> u32 \<Rightarrow> (exn + PeerConnection) list \<times> u32" where
  "construct_run [] c = ([], c)"
| "construct_run ((pid, env) # xs) c =
     (let (r, c') = PeerConnection_ctor pid env c;
          (rs, c'') = construct_run xs c'
      in (r # rs, c''))"

section \<open>Signaling (signaling_server.cpp)\<close>

text \<open>
  JSON values as the JSON library holds them (floating-point numbers left out), and
  its \<open>value(key, default)\<close>: the default when the key is absent, \<open>type_error\<close> 306
  on a non-object, 302 when the stored value does not convert.
\<close>

datatype json =
    JNull
  | JBool bool
  | JInt int
  | JString string
  | JArray "json list"
  | JObject "(string \<times> json) list"

datatype json_exception = parse_error | type_error nat

fun value_string :: "json \<Rightarrow> string \<Rightarrow> string \<Rightarrow> json_exception + string" where
  "value_string (JObject kvs) key dflt =
     (case map_of kvs key of
        None \<Rightarrow> Inr dflt
      | Some (JString v) \<Rightarrow> Inr v
      | Some _ \<Rightarrow> Inl (type_error 302))"
| "value_string _ key dflt = Inl (type_error 306)"

fun value_json :: "json \<Rightarrow> string \<Rightarrow> json \<Rightarrow> json_exception + json" where
  "value_json (JObject kvs) key dflt =
     (case map_of kvs key of None \<Rightarrow> Inr dflt | Some v \<Rightarrow> Inr v)"
| "value_json _ key dflt = Inl (type_error 306)"

text \<open>
  What a handler does, in order: frames sent on the socket, calls into the
  registry, an invocation of the registered bitrate callback, log lines.
\<close>

datatype log_level = Debug | Info | Warn

datatype action =
    Send json
  | Close
  | CallHandleAnswer string string
  | CallHandleCandidate string string string
  | CallStartOffer string
  | InvokeBitrateCb c_int
  | Log log_level string

text \<open>
  \<open>on_client_message\<close>. The text-to-JSON parser is the library's and is a parameter.
  Every \<open>json::exception\<close> ends in the one handler at the bottom.
\<close>

definition invalid_json :: "action list" where
  "invalid_json = [Log Warn ''Invalid JSON message'']"

definition on_client_message ::
  "(string \<Rightarrow> json_exception + json) \<Rightarrow> string \<Rightarrow> string \<Rightarrow> action list" where
  "on_client_message parse pid message =
     (case parse message of
        Inl e \<Rightarrow> invalid_json
      | Inr msg \<Rightarrow>
          (case value_string msg ''type'' '''' of
             Inl e \<Rightarrow> invalid_json
           | Inr ty \<Rightarrow>
               if ty = ''answer'' then
                 (case value_string msg ''sdp'' '''' of
                    Inl e \<Rightarrow> invalid_json
                  | Inr sdp \<Rightarrow>
                      if sdp \<noteq> '''' then
                        [Log Debug ''Received SDP answer'', CallHandleAnswer pid sdp]
                      else [])
               else if ty = ''candidate'' then
                 (case value_json msg ''data'' (JObject []) of
                    Inl e \<Rightarrow> invalid_json
                  | Inr d \<Rightarrow>
                      (case value_string d ''candidate'' '''' of
                         Inl e \<Rightarrow> invalid_json
                       | Inr candidate \<Rightarrow>
                           (case value_string d ''sdpMid'' ''0'' of
                              Inl e \<Rightarrow> invalid_json
                            | Inr mid \<Rightarrow>
                                if candidate \<noteq> '''' then
                                  [Log Debug ''Received ICE candidate'',
                                   CallHandleCandidate pid candidate mid]
                                else [])))
               else if ty = ''ping'' then [Send (JObject [(''type'', JString ''pong'')])]
               else [Log Debug ''Unknown message type'']))"

text \<open>
  \<open>on_client_connected\<close>, up to the point where the handlers are installed: the
  peer is created, and the socket gets either the refusal and is closed, or the
  welcome followed by the request for an offer.
\<close>

definition ice_servers :: "WebRtcConfig \<Rightarrow> json list" where
  "ice_servers w =
     (if stun_server w \<noteq> '''' then [JObject [(''urls'', JString (stun_server w))]] else []) @
     (if turn_server w \<noteq> '''' then
        [JObject [(''urls'', JString (turn_server w)),
                  (''username'', JString (turn_username w)),
                  (''credential'', JString (turn_credential w))]]
      else [])"

definition on_client_connected ::
  "AppConfig \<Rightarrow> u32 \<Rightarrow> ctor_env \<Rightarrow> WebRtcServer \<Rightarrow> action list \<times> WebRtcServer" where
  "on_client_connected cfg rnd env s =
     (let (pid, s') = create_peer cfg rnd env s in
      if pid = '''' then
        ([Log Warn ''Rejected client: max peers reached'',
          Send (JObject [(''type'', JString ''error''),
                         (''message'', JString ''Server full, max peers reached'')]),
          Close], s')
      else
        ([Log Info ''Client connected'',
          Send (JObject [(''type'', JString ''welcome''),
                         (''peerId'', JString pid),
                         (''iceServers'', JArray (ice_servers (webrtc cfg)))]),
          CallStartOffer pid], s'))"

section \<open>Media pipeline (rtsp_pipeline.cpp)\<close>

text \<open>
  The two preprocessor switches of \<open>build_pipeline\<close>, and the graph it describes.
  Only the two re-encode graphs name their encoder \<open>enc\<close>.
\<close>

record build_flags =
  enable_test_mode :: bool
  jetson_platform :: bool

datatype mode = TestPattern | PassthroughMode | ReencodeSW | ReencodeHW

definition select_mode :: "build_flags \<Rightarrow> AppConfig \<Rightarrow> mode" where
  "select_mode fl cfg =
     (if enable_test_mode fl \<and> url (rtsp cfg) = '''' then TestPattern
      else if passthrough (encoding cfg) then PassthroughMode
      else if jetson_platform fl \<and> hw_encode (encoding cfg) then ReencodeHW
      else ReencodeSW)"

record pipeline_stats =
  frames_received :: u64
  bytes_received :: u64
  reconnect_count :: u64
  source_connected :: bool

text \<open>
  Where the worker thread stands: inside \<open>build_pipeline\<close> and the change to
  PLAYING, inside \<open>gst_bus_timed_pop\<close>, inside one 100 ms sleep of
  \<open>attempt_reconnect\<close> (with \<open>elapsed\<close> so far), or returned.
\<close>

datatype worker_pc = InBuild | InBusPop | InSleep c_int | Exited

text \<open>
  The object. \<open>encoder_bitrate\<close> is \<open>None\<close> while \<open>encoder_\<close> is null and otherwise
  the \<open>bitrate\<close> property (a \<open>guint\<close>) of the element it points to; \<open>thread\<close> is
  \<open>None\<close> while \<open>thread_\<close> is not joinable.
\<close>

record RtspPipeline =
  pipeline_ptr :: bool
  appsink_ptr :: bool
  encoder_bitrate :: "u32 option"
  is_hw_encode :: bool
  thread :: "worker_pc option"
  pl_running :: bool
  stop_requested :: bool
  pl_stats :: pipeline_stats

definition RtspPipeline_init :: RtspPipeline where
  "RtspPipeline_init =
     \<lparr> pipeline_ptr = False, appsink_ptr = False, encoder_bitrate = None,
       is_hw_encode = False, thread = None, pl_running = False, stop_requested = False,
       pl_stats = \<lparr> frames_received = 0, bytes_received = 0, reconnect_count = 0,
                    source_connected = False \<rparr> \<rparr>"

text \<open>\<open>std::max\<close> and \<open>std::min\<close> on \<open>int\<close>.\<close>

definition std_max :: "c_int \<Rightarrow> c_int \<Rightarrow> c_int" where
  "std_max a b = (if word_sless a b then b else a)"

definition std_min :: "c_int \<Rightarrow> c_int \<Rightarrow> c_int" where
  "std_min a b = (if word_sless b a then b else a)"

text \<open>
  \<open>set_bitrate\<close>. The product \<open>clamped * 1000\<close> is a product of \<open>int\<close>: the model
  takes it in 32 bits, wrapping where C++ leaves the overflow undefined; the
  cast to \<open>guint\<close> keeps the bits.
\<close>

definition set_bitrate :: "AppConfig \<Rightarrow> c_int \<Rightarrow> RtspPipeline \<Rightarrow> RtspPipeline" where
  "set_bitrate cfg kbps p =
     (case encoder_bitrate p of
        None \<Rightarrow> p
      | Some b \<Rightarrow>
          if \<not> pl_running p then p
          else
            let clamped = std_max (min_bitrate_kbps (video (webrtc cfg)))
                            (std_min kbps (max_bitrate_kbps (video (webrtc cfg))))
            in if is_hw_encode p then p\<lparr> encoder_bitrate := Some (clamped * 1000) \<rparr>
               else p\<lparr> encoder_bitrate := Some clamped \<rparr>)"


text \<open>
  \<open>build_pipeline\<close>. The media framework decides how it ends: the parser reports
  an error (leaving \<open>pipeline_\<close> null or not), the sink is not found, or the graph
  is built. The first component of the result is the exception, if one is thrown.
\<close>

datatype build_result = ParseError bool | NoAppsink | Built

definition initial_bitrate :: "mode \<Rightarrow> AppConfig \<Rightarrow> u32 option" where
  "initial_bitrate m cfg =
     (if m = ReencodeHW then Some (bitrate_kbps (video (webrtc cfg)) * 1000)
      else if m = ReencodeSW then Some (bitrate_kbps (video (webrtc cfg)))
      else None)"

definition build_pipeline ::
  "build_flags \<Rightarrow> AppConfig \<Rightarrow> build_result \<Rightarrow> RtspPipeline \<Rightarrow> exn option \<times> RtspPipeline" where
  "build_pipeline fl cfg res p =
     (let m = select_mode fl cfg;
          p1 = (if m = ReencodeHW then p\<lparr> is_hw_encode := True \<rparr>
                else if m = ReencodeSW then p\<lparr> is_hw_encode := False \<rparr>
                else p)
      in case res of
           ParseError left \<Rightarrow>
             (Some (StdException ''Failed to create pipeline''), p1\<lparr> pipeline_ptr := left \<rparr>)
         | NoAppsink \<Rightarrow>
             (Some (StdException ''Failed to find appsink element''),
              p1\<lparr> pipeline_ptr := True, appsink_ptr := False \<rparr>)
         | Built \<Rightarrow>
             (None, p1\<lparr> pipeline_ptr := True, appsink_ptr := True,
                        encoder_bitrate := initial_bitrate m cfg \<rparr>))"

text \<open>
  The worker. \<open>loop_head\<close> is the test of the outer \<open>while\<close>; \<open>sleep_loop\<close> the test
  of the back-off loop; \<open>attempt_reconnect\<close> runs up to its first sleep. Every call
  of \<open>attempt_reconnect\<close> in \<open>pipeline_thread\<close> is followed by the outer test.
  \<open>reconnect_max_attempts\<close> is read nowhere.
\<close>

definition loop_head :: "RtspPipeline \<Rightarrow> RtspPipeline" where
  "loop_head p = p\<lparr> thread := Some (if stop_requested p then Exited else InBuild) \<rparr>"

definition sleep_loop :: "AppConfig \<Rightarrow> c_int \<Rightarrow> RtspPipeline \<Rightarrow> RtspPipeline" where
  "sleep_loop cfg elapsed p =
     (if word_sless elapsed (reconnect_interval_ms (rtsp cfg)) \<and> \<not> stop_requested p
      then p\<lparr> thread := Some (InSleep elapsed) \<rparr>
      else loop_head p)"

definition attempt_reconnect :: "AppConfig \<Rightarrow> RtspPipeline \<Rightarrow> RtspPipeline" where
  "attempt_reconnect cfg p =
     (if stop_requested p then loop_head p
      else sleep_loop cfg 0
             (p\<lparr> pl_stats := (pl_stats p)
                   \<lparr> reconnect_count := reconnect_count (pl_stats p) + 1 \<rparr> \<rparr>))"

text \<open>
  The test of the message loop, and what follows the loop when it ends: the
  flags are cleared, the graph is dropped, and unless a stop was requested the
  worker backs off.
\<close>

definition bus_loop :: "AppConfig \<Rightarrow> bool \<Rightarrow> RtspPipeline \<Rightarrow> RtspPipeline" where
  "bus_loop cfg pipeline_ok p =
     (if \<not> stop_requested p \<and> pipeline_ok then p\<lparr> thread := Some InBusPop \<rparr>
      else
        let p1 = p\<lparr> pl_running := False,
                    pl_stats := (pl_stats p)\<lparr> source_connected := False \<rparr>,
                    pipeline_ptr := False, appsink_ptr := False \<rparr>
        in if \<not> stop_requested p1 then attempt_reconnect cfg p1 else loop_head p1)"

datatype bus_message = MsgError | MsgWarning | MsgEos | MsgStateChanged | MsgOther

text \<open>What the media framework answers to the worker's blocking calls.\<close>

record worker_env =
  build_res :: build_result
  play_ok :: bool
  bus_msg :: "bus_message option"

text \<open>
  One step of \<open>pipeline_thread\<close>: the blocking call the worker is in returns, and
  the worker runs on to its next blocking call or to its end.
\<close>

definition worker_step ::
  "build_flags \<Rightarrow> AppConfig \<Rightarrow> worker_env \<Rightarrow> RtspPipeline \<Rightarrow> RtspPipeline" where
  "worker_step fl cfg env p =
     (case thread p of
        None \<Rightarrow> p
      | Some Exited \<Rightarrow> p
      | Some InBuild \<Rightarrow>
          (case build_pipeline fl cfg (build_res env) p of
             (Some e, p1) \<Rightarrow> attempt_reconnect cfg p1
           | (None, p1) \<Rightarrow>
               if \<not> play_ok env
               then attempt_reconnect cfg (p1\<lparr> pipeline_ptr := False, appsink_ptr := False \<rparr>)
               else bus_loop cfg True (p1\<lparr> pl_running := True \<rparr>))
      | Some InBusPop \<Rightarrow>
          bus_loop cfg (bus_msg env \<noteq> Some MsgError \<and> bus_msg env \<noteq> Some MsgEos) p
      | Some (InSleep elapsed) \<Rightarrow> sleep_loop cfg (elapsed + 100) p)"

fun worker_run ::
  "build_flags \<Rightarrow> AppConfig \<Rightarrow> worker_env list \<Rightarrow> RtspPipeline \<Rightarrow> RtspPipeline" where
  "worker_run fl cfg [] p = p"
| "worker_run fl cfg (env # envs) p = worker_run fl cfg envs (worker_step fl cfg env p)"

text \<open>
  \<open>on_new_sample\<close>, the sink's callback on the streaming thread. The input is the
  mapped buffer with its timestamp in microseconds, or \<open>None\<close> when there is no
  sample, no buffer or no mapping. The first component of the result is the call
  of the NAL callback, made for a buffer that is not empty.
\<close>

definition on_new_sample ::
  "(8 word list \<times> u64) option \<Rightarrow> RtspPipeline \<Rightarrow> (8 word list \<times> u64) option \<times> RtspPipeline" where
  "on_new_sample sample p =
     (case sample of
        None \<Rightarrow> (None, p)
      | Some (dat, timestamp_us) \<Rightarrow>
          (if dat \<noteq> [] then Some (dat, timestamp_us) else None,
           p\<lparr> pl_stats := (pl_stats p)
                \<lparr> frames_received := frames_received (pl_stats p) + 1,
                  bytes_received := bytes_received (pl_stats p) + of_nat (length dat),
                  source_connected := True \<rparr> \<rparr>))"

text \<open>
  \<open>start\<close>. Assigning a new thread to a \<open>std::thread\<close> that is still joinable ends
  the process (\<open>std::terminate\<close>): the result \<open>None\<close>.
\<close>

definition start :: "RtspPipeline \<Rightarrow> RtspPipeline option" where
  "start p =
     (if pl_running p then Some p
      else if thread p \<noteq> None then None
      else Some (loop_head (p\<lparr> stop_requested := False \<rparr>)))"

text \<open>
  \<open>thread_.join()\<close> returns when the worker has returned; until then the worker
  takes its steps, each with the framework's next answers. A join that never
  returns is \<open>None\<close>.
\<close>

partial_function (option) join ::
  "build_flags \<Rightarrow> AppConfig \<Rightarrow> (nat \<Rightarrow> worker_env) \<Rightarrow> RtspPipeline \<Rightarrow> RtspPipeline option" where
  "join fl cfg envs p =
     (if thread p = None then Some p
      else if thread p = Some Exited then Some (p\<lparr> thread := None \<rparr>)
      else join fl cfg (\<lambda>n. envs (Suc n)) (worker_step fl cfg (envs 0) p))"

text \<open>
  \<open>stop\<close>: the two stores to the flags, the join if the thread is joinable, the
  teardown of the graph.
\<close>

definition request_stop :: "RtspPipeline \<Rightarrow> RtspPipeline" where
  "request_stop p = p\<lparr> stop_requested := True, pl_running := False \<rparr>"

definition stop ::
  "build_flags \<Rightarrow> AppConfig \<Rightarrow> (nat \<Rightarrow> worker_env) \<Rightarrow> RtspPipeline \<Rightarrow> RtspPipeline option" where
  "stop fl cfg envs p =
     (let p1 = request_stop p in
      case (if thread p1 \<noteq> None then join fl cfg envs p1 else Some p1) of
        None \<Rightarrow> None
      | Some p2 \<Rightarrow>
          Some (if pipeline_ptr p2
                then p2\<lparr> pipeline_ptr := False, appsink_ptr := False, encoder_bitrate := None \<rparr>
                else p2))"

text \<open>
  The states a pipeline passes through: calls of \<open>start\<close>, \<open>stop\<close> and
  \<open>set_bitrate\<close>, steps of the worker, and samples arriving at the sink. A \<open>stop\<close>
  is there as a whole, and also as its first two stores alone, after which the
  worker may still take steps before it is joined.
\<close>

inductive pipeline_reachable :: "build_flags \<Rightarrow> AppConfig \<Rightarrow> RtspPipeline \<Rightarrow> bool"
  for fl :: build_flags and cfg :: AppConfig where
  pr_init: "pipeline_reachable fl cfg RtspPipeline_init"
| pr_start: "pipeline_reachable fl cfg p \<Longrightarrow> start p = Some p' \<Longrightarrow> pipeline_reachable fl cfg p'"
| pr_stop: "pipeline_reachable fl cfg p \<Longrightarrow> stop fl cfg envs p = Some p' \<Longrightarrow>
            pipeline_reachable fl cfg p'"
| pr_request_stop: "pipeline_reachable fl cfg p \<Longrightarrow> pipeline_reachable fl cfg (request_stop p)"
| pr_step: "pipeline_reachable fl cfg p \<Longrightarrow> pipeline_reachable fl cfg (worker_step fl cfg env p)"
| pr_set_bitrate: "pipeline_reachable fl cfg p \<Longrightarrow> pipeline_reachable fl cfg (set_bitrate cfg k p)"
| pr_sample: "pipeline_reachable fl cfg p \<Longrightarrow>
              pipeline_reachable fl cfg (snd (on_new_sample sample p))"


section \<open>Properties of a peer session\<close>

text \<open>What a send does to a connected session with an open track.\<close>

lemma send_h264_nal_connected:
  assumes "connected p" and "video_track p = Some t" and "is_open t"
  shows "rtp_timestamp (send_h264_nal p dat ts) = ucast ((ts * defaultClockRate) div 1000000)"
    and "connected (send_h264_nal p dat ts)"
    and "video_track (send_h264_nal p dat ts) = Some t"
  using assms by (simp_all add: send_h264_nal_def Let_def)

lemma unat_rtp_timestamp:
  "unat (ucast ((ts * defaultClockRate) div 1000000 :: u64) :: u32)
     = (unat ts * 90000 mod 2 ^ 64 div 1000000) mod 2 ^ 32"
  by (simp add: defaultClockRate_def unsigned_ucast_eq unat_div unat_word_ariths take_bit_eq_mod)

lemma floor_ticks: "\<lfloor>real n * 90000 / 1000000\<rfloor> = int (n * 90000 div 1000000)"
proof -
  have "real n * 90000 / 1000000 = real (n * 90000) / real 1000000" by simp
  then show ?thesis by (simp only: floor_divide_of_nat_eq)
qed

text \<open>
  Claim C4, as amended. For a connected session with an open track, the RTP
  timestamp a send writes is the integer quotient \<open>pts_us * 90000 div 1000000\<close>,
  that is the floor (not the rounding) of \<open>pts_us * 90000 / 1000000\<close>, modulo
  \<open>2^32\<close>, as long as the 64-bit product does not overflow. Over two successive
  sends of one session with non-decreasing \<open>pts_us\<close> the timestamps do not
  decrease as long as the quotient stays below \<open>2^32\<close>.
\<close>

theorem rtp_timestamp_floor:
  assumes "connected p" and "video_track p = Some t" and "is_open t"
    and "unat ts1 * 90000 < 2 ^ 64"
  shows "int (unat (rtp_timestamp (send_h264_nal p d1 ts1)))
           = \<lfloor>real (unat ts1) * 90000 / 1000000\<rfloor> mod 2 ^ 32
       \<and> (ts1 \<le> ts2 \<and> unat ts2 * 90000 div 1000000 < 2 ^ 32 \<longrightarrow>
            rtp_timestamp (send_h264_nal p d1 ts1)
              \<le> rtp_timestamp (send_h264_nal (send_h264_nal p d1 ts1) d2 ts2))"
proof (intro conjI impI)
  have "unat (rtp_timestamp (send_h264_nal p d1 ts1))
          = (unat ts1 * 90000 mod 2 ^ 64 div 1000000) mod 2 ^ 32"
    by (simp only: send_h264_nal_connected(1)[OF assms(1-3)] unat_rtp_timestamp)
  also have "\<dots> = (unat ts1 * 90000 div 1000000) mod 2 ^ 32"
    using assms(4) by (simp only: mod_less)
  finally have "int (unat (rtp_timestamp (send_h264_nal p d1 ts1)))
          = int (unat ts1 * 90000 div 1000000) mod 2 ^ 32"
    by (simp only: zmod_int of_nat_power of_nat_numeral)
  then show "int (unat (rtp_timestamp (send_h264_nal p d1 ts1)))
           = \<lfloor>real (unat ts1) * 90000 / 1000000\<rfloor> mod 2 ^ 32"
    by (simp only: floor_ticks)
next
  assume h: "ts1 \<le> ts2 \<and> unat ts2 * 90000 div 1000000 < 2 ^ 32"
  let ?p1 = "send_h264_nal p d1 ts1"
  have c1: "connected ?p1" and t1: "video_track ?p1 = Some t"
    using send_h264_nal_connected(2,3)[OF assms(1-3)] by simp_all
  have le: "unat ts1 \<le> unat ts2" using h by (simp add: word_le_nat_alt)
  have b2: "unat ts2 * 90000 < 2 ^ 64"
  proof (rule ccontr)
    assume "\<not> unat ts2 * 90000 < 2 ^ 64"
    then have "(2::nat) ^ 64 div 1000000 \<le> unat ts2 * 90000 div 1000000"
      by (intro div_le_mono) simp
    with h show False by simp
  qed
  have q: "unat ts1 * 90000 div 1000000 \<le> unat ts2 * 90000 div 1000000"
    using le by (intro div_le_mono) simp
  have "unat (rtp_timestamp ?p1) = unat ts1 * 90000 div 1000000"
    using assms(4) q h
    by (simp add: send_h264_nal_connected(1)[OF assms(1-3)] unat_rtp_timestamp)
  moreover have "unat (rtp_timestamp (send_h264_nal ?p1 d2 ts2)) = unat ts2 * 90000 div 1000000"
    using b2 h
    by (simp add: send_h264_nal_connected(1)[OF c1 t1 assms(3)] unat_rtp_timestamp)
  ultimately show "rtp_timestamp ?p1 \<le> rtp_timestamp (send_h264_nal ?p1 d2 ts2)"
    using q by (simp add: word_le_nat_alt)
qed

text \<open>
  At 6 microseconds the quotient is 0.54: the code writes 0, rounding gives 1.
  Between 47721858844 and 47721858845 microseconds (some 13 hours) the 32-bit
  timestamp wraps from \<open>2^32 - 1\<close> to 0.
\<close>

theorem rtp_timestamp_floor_counterexample:
  "int (unat (rtp_timestamp (send_h264_nal
      \<lparr> peer_id = ''peer-0000002a'', ssrc = 42,
        video_track = Some \<lparr> is_open = True, send_throws = False \<rparr>,
        rtp_timestamp = 0, needs_keyframe = True, connected = True, closed = False,
        stats = \<lparr> rtp_packets_sent = 0, bytes_sent = 0, state = ''connected'' \<rparr> \<rparr>
      [0, 0, 0, 1, 101] 6)))
     \<noteq> round (real (unat (6 :: u64)) * 90000 / 1000000) mod 2 ^ 32
   \<and> (47721858844 :: u64) \<le> 47721858845
   \<and> \<not> rtp_timestamp (send_h264_nal
      \<lparr> peer_id = ''peer-0000002a'', ssrc = 42,
        video_track = Some \<lparr> is_open = True, send_throws = False \<rparr>,
        rtp_timestamp = 0, needs_keyframe = True, connected = True, closed = False,
        stats = \<lparr> rtp_packets_sent = 0, bytes_sent = 0, state = ''connected'' \<rparr> \<rparr>
      [0, 0, 0, 1, 101] 47721858844)
     \<le> rtp_timestamp (send_h264_nal (send_h264_nal
      \<lparr> peer_id = ''peer-0000002a'', ssrc = 42,
        video_track = Some \<lparr> is_open = True, send_throws = False \<rparr>,
        rtp_timestamp = 0, needs_keyframe = True, connected = True, closed = False,
        stats = \<lparr> rtp_packets_sent = 0, bytes_sent = 0, state = ''connected'' \<rparr> \<rparr>
      [0, 0, 0, 1, 101] 47721858844) [0, 0, 0, 1, 65] 47721858845)"
  by (simp add: send_h264_nal_def defaultClockRate_def Let_def round_def)

text \<open>One second is 90000 ticks, and the next frame of a 30 fps stream is later.\<close>

theorem rtp_timestamp_floor_witness:
  "int (unat (rtp_timestamp (send_h264_nal
      \<lparr> peer_id = ''peer-0000002a'', ssrc = 42,
        video_track = Some \<lparr> is_open = True, send_throws = False \<rparr>,
        rtp_timestamp = 0, needs_keyframe = True, connected = True, closed = False,
        stats = \<lparr> rtp_packets_sent = 0, bytes_sent = 0, state = ''connected'' \<rparr> \<rparr>
      [0, 0, 0, 1, 101] 1000000))) = 90000
   \<and> rtp_timestamp (send_h264_nal
      \<lparr> peer_id = ''peer-0000002a'', ssrc = 42,
        video_track = Some \<lparr> is_open = True, send_throws = False \<rparr>,
        rtp_timestamp = 0, needs_keyframe = True, connected = True, closed = False,
        stats = \<lparr> rtp_packets_sent = 0, bytes_sent = 0, state = ''connected'' \<rparr> \<rparr>
      [0, 0, 0, 1, 101] 1000000)
     \<le> rtp_timestamp (send_h264_nal (send_h264_nal
      \<lparr> peer_id = ''peer-0000002a'', ssrc = 42,
        video_track = Some \<lparr> is_open = True, send_throws = False \<rparr>,
        rtp_timestamp = 0, needs_keyframe = True, connected = True, closed = False,
        stats = \<lparr> rtp_packets_sent = 0, bytes_sent = 0, state = ''connected'' \<rparr> \<rparr>
      [0, 0, 0, 1, 101] 1000000) [0, 0, 0, 1, 65] 1033333)"
proof -
  let ?p = "\<lparr> peer_id = ''peer-0000002a'', ssrc = 42,
        video_track = Some \<lparr> is_open = True, send_throws = False \<rparr>,
        rtp_timestamp = 0, needs_keyframe = True, connected = True, closed = False,
        stats = \<lparr> rtp_packets_sent = 0, bytes_sent = 0, state = ''connected'' \<rparr> \<rparr>"
  have c: "connected ?p" by simp
  have t: "video_track ?p = Some \<lparr> is_open = True, send_throws = False \<rparr>" by simp
  have opn: "is_open \<lparr> is_open = True, send_throws = False \<rparr>" by simp
  have b: "unat (1000000 :: u64) * 90000 < 2 ^ 64" by simp
  have fl: "\<lfloor>real (unat (1000000 :: u64)) * 90000 / 1000000\<rfloor> mod 2 ^ 32 = 90000" by simp
  have h: "(1000000 :: u64) \<le> 1033333 \<and> unat (1033333 :: u64) * 90000 div 1000000 < 2 ^ 32"
    by simp
  from rtp_timestamp_floor[OF c t opn b, of "[0, 0, 0, 1, 101]" 1033333 "[0, 0, 0, 1, 65]"] fl h
  show ?thesis by (simp only:) 
qed

text \<open>
  Claim C8. A send on a session that is not connected, has no video track, or
  whose track is not open returns the session as it was: the RTP timestamp and
  both counters of the statistics are unchanged, and nothing is raised.
\<close>

theorem send_h264_nal_noop:
  assumes "\<not> connected p \<or> video_track p = None
           \<or> (\<exists>t. video_track p = Some t \<and> \<not> is_open t)"
  shows "send_h264_nal p dat ts = p"
  using assms by (auto simp: send_h264_nal_def split: option.splits)

text \<open>A session still connecting, its track closed.\<close>

theorem send_h264_nal_noop_witness:
  "send_h264_nal
     \<lparr> peer_id = ''peer-0000000b'', ssrc = 43,
       video_track = Some \<lparr> is_open = False, send_throws = False \<rparr>,
       rtp_timestamp = 7, needs_keyframe = True, connected = False, closed = False,
       stats = \<lparr> rtp_packets_sent = 0, bytes_sent = 0, state = ''connecting'' \<rparr> \<rparr>
     [0, 0, 0, 1, 101] 1000000
   = \<lparr> peer_id = ''peer-0000000b'', ssrc = 43,
       video_track = Some \<lparr> is_open = False, send_throws = False \<rparr>,
       rtp_timestamp = 7, needs_keyframe = True, connected = False, closed = False,
       stats = \<lparr> rtp_packets_sent = 0, bytes_sent = 0, state = ''connecting'' \<rparr> \<rparr>"
proof -
  let ?p = "\<lparr> peer_id = ''peer-0000000b'', ssrc = 43,
       video_track = Some \<lparr> is_open = False, send_throws = False \<rparr>,
       rtp_timestamp = 7, needs_keyframe = True, connected = False, closed = False,
       stats = \<lparr> rtp_packets_sent = 0, bytes_sent = 0, state = ''connecting'' \<rparr> \<rparr>"
  have h: "\<not> connected ?p \<or> video_track ?p = None
           \<or> (\<exists>t. video_track ?p = Some t \<and> \<not> is_open t)" by simp
  show ?thesis by (rule send_h264_nal_noop[OF h])
qed

section \<open>Properties of the SSRC counter\<close>

text \<open>The counter after a run of constructions, and the SSRC each of them drew.\<close>

lemma ctor_counter: "snd (PeerConnection_ctor pid env c) = c + 1"
  by (simp add: PeerConnection_ctor_def fetch_add_def split: option.splits)

lemma ctor_ssrc: "fst (PeerConnection_ctor pid env c) = Inr a \<Longrightarrow> ssrc a = c"
  by (auto simp: PeerConnection_ctor_def fetch_add_def split: option.splits)

lemma construct_run_Cons:
  "construct_run (x # xs) c =
     (fst (PeerConnection_ctor (fst x) (snd x) c) #
        fst (construct_run xs (snd (PeerConnection_ctor (fst x) (snd x) c))),
      snd (construct_run xs (snd (PeerConnection_ctor (fst x) (snd x) c))))"
  by (cases x) (simp add: split_beta Let_def)

lemma construct_run_counter: "snd (construct_run xs c) = c + of_nat (length xs)"
  by (induction xs arbitrary: c) (simp_all add: construct_run_Cons ctor_counter)

lemma construct_run_ssrc:
  "i < length xs \<Longrightarrow> fst (construct_run xs c) ! i = Inr a \<Longrightarrow> ssrc a = c + of_nat i"
proof (induction xs arbitrary: c i)
  case Nil
  then show ?case by simp
next
  case (Cons x xs)
  show ?case
  proof (cases i)
    case 0
    with Cons.prems(2) have "fst (PeerConnection_ctor (fst x) (snd x) c) = Inr a"
      by (simp add: construct_run_Cons)
    then show ?thesis using 0 by (simp add: ctor_ssrc)
  next
    case (Suc j)
    with Cons.prems(1) have j: "j < length xs" by simp
    from Cons.prems(2) Suc
    have "fst (construct_run xs (snd (PeerConnection_ctor (fst x) (snd x) c))) ! j = Inr a"
      by (simp add: construct_run_Cons)
    from Cons.IH[OF j this] show ?thesis using Suc by (simp add: ctor_counter)
  qed
qed

lemma construct_run_nth:
  "i < length xs \<Longrightarrow>
     fst (construct_run xs c) ! i
       = fst (PeerConnection_ctor (fst (xs ! i)) (snd (xs ! i)) (c + of_nat i))"
proof (induction xs arbitrary: c i)
  case Nil
  then show ?case by simp
next
  case (Cons x xs)
  show ?case
  proof (cases i)
    case 0
    then show ?thesis by (simp add: construct_run_Cons)
  next
    case (Suc j)
    with Cons.prems have j: "j < length xs" by simp
    show ?thesis using Cons.IH[OF j] Suc by (simp add: construct_run_Cons ctor_counter add.assoc)
  qed
qed

lemma of_nat_neq_32:
  assumes "i < j" and "j - i < 2 ^ 32"
  shows "(of_nat i :: u32) \<noteq> of_nat j"
proof
  assume "(of_nat i :: u32) = of_nat j"
  then have "(of_nat (j - i) :: u32) = 0" using assms(1) by (simp add: of_nat_diff)
  then have "2 ^ 32 dvd (j - i)" by (simp add: word_of_nat_eq_0_iff)
  then show False using assms by (auto dest: dvd_imp_le)
qed

section \<open>Properties of the registry\<close>

lemma sint_size_exact:
  "int n < 2 ^ 31 \<Longrightarrow> sint (word_of_nat n :: c_int) = int n"
  by (simp add: signed_of_nat signed_take_bit_int_eq_self)

lemma length_update_le: "length (AList.update k v al) \<le> Suc (length al)"
  by (induction al) auto

lemma length_map_entry: "length (AList.map_entry k f al) = length al"
  by (induction al) auto

lemma broadcast_loop_eq:
  "broadcast_loop ps dat ts =
     (map fst (filter (\<lambda>(pid, p). is_connected p) ps),
      map (\<lambda>(pid, p). (pid, if is_connected p then send_h264_nal p dat ts else p)) ps)"
  by (induction ps dat ts rule: broadcast_loop.induct) (simp_all add: split_beta Let_def)

lemma create_peer_inv:
  assumes "registry_inv cfg s"
  shows "registry_inv cfg (snd (create_peer cfg rnd env s))"
proof (cases "word_sle (max_peers (webrtc cfg)) (word_of_nat (length (peers s)) :: c_int)")
  case True
  then show ?thesis using assms by (simp add: create_peer_def)
next
  case False
  have lt31: "sint (max_peers (webrtc cfg)) < 2 ^ 31"
    using sint_lt[of "max_peers (webrtc cfg)"] by simp
  with assms have small: "int (length (peers s)) < 2 ^ 31"
    by (simp add: registry_inv_def)
  from False have "int (length (peers s)) < sint (max_peers (webrtc cfg))"
    by (simp add: word_sle_eq sint_size_exact[OF small])
  then have "int (length (AList.update k v (peers s))) \<le> sint (max_peers (webrtc cfg))" for k v
    using length_update_le[of k v "peers s"] by linarith
  then show ?thesis
    using assms False
    by (auto simp: create_peer_def registry_inv_def Let_def distinct_update
        split: prod.splits sum.splits)
qed

lemma apply_op_inv:
  assumes "registry_inv cfg s"
  shows "registry_inv cfg (apply_op cfg ev s)"
proof (cases ev)
  case (OpCreate rnd env)
  then show ?thesis using create_peer_inv[OF assms] by simp
next
  case (OpRemove pid)
  then show ?thesis
    using assms length_delete_le[of pid "peers s"]
    by (simp add: registry_inv_def remove_peer_def distinct_delete)
next
  case (OpAnswer pid sdp)
  then show ?thesis
    using assms
    by (simp add: registry_inv_def server_handle_answer_def distinct_map_entry length_map_entry)
next
  case (OpBroadcast dat ts)
  then show ?thesis
    using assms
    by (simp add: registry_inv_def broadcast_nal_def broadcast_loop_eq comp_def split_beta)
next
  case OpCleanup
  have "int (length (filter (\<lambda>(pid, p). \<not> is_closed p) (peers s)))
          \<le> sint (max_peers (webrtc cfg))"
  proof -
    have "int (length (filter (\<lambda>(pid, p). \<not> is_closed p) (peers s))) \<le> int (length (peers s))"
      by simp
    also have "\<dots> \<le> sint (max_peers (webrtc cfg))"
      using assms by (simp add: registry_inv_def)
    finally show ?thesis .
  qed
  then show ?thesis
    using assms OpCleanup by (simp add: registry_inv_def cleanup_pass_def distinct_map_filter)
next
  case OpStart
  then show ?thesis using assms by (simp add: registry_inv_def server_start_def)
next
  case OpStop
  then show ?thesis
    using assms sint_ge[of "max_peers (webrtc cfg)"]
    by (simp add: registry_inv_def server_stop_def)
next
  case (OpStateChange pid st)
  then show ?thesis
    using assms by (simp add: registry_inv_def distinct_map_entry length_map_entry)
next
  case (OpTrackOpen pid)
  then show ?thesis
    using assms by (simp add: registry_inv_def distinct_map_entry length_map_entry)
next
  case (OpTransport pid opn thr)
  then show ?thesis
    using assms by (simp add: registry_inv_def distinct_map_entry length_map_entry)
qed

lemma reachable_inv:
  assumes "0 \<le> sint (max_peers (webrtc cfg))" and "reachable cfg s"
  shows "registry_inv cfg s"
  using assms(2)
proof (induction rule: reachable.induct)
  case reachable_init
  then show ?case using assms(1) by (simp add: registry_inv_def WebRtcServer_init_def)
next
  case (reachable_step s ev)
  from reachable_step.IH show ?case by (rule apply_op_inv)
qed

lemma create_peer_at_cap:
  assumes "0 \<le> sint (max_peers (webrtc cfg))"
    and "int (length (peers s)) = sint (max_peers (webrtc cfg))"
  shows "create_peer cfg rnd env s = ('''', s)"
proof -
  have "int (length (peers s)) < 2 ^ 31"
    using sint_lt[of "max_peers (webrtc cfg)"] assms(2) by simp
  then have "sint (word_of_nat (length (peers s)) :: c_int) = sint (max_peers (webrtc cfg))"
    using assms(2) by (simp add: sint_size_exact)
  then show ?thesis by (simp add: create_peer_def word_sle_eq)
qed

lemma generate_peer_id_nonempty: "generate_peer_id r \<noteq> ''''"
  by (simp add: generate_peer_id_def)

text \<open>
  Claim C2, as amended. When the configured \<open>max_peers\<close> is not negative, every
  state the registry reaches holds at most \<open>max_peers\<close> sessions, one per id, and
  a \<open>create_peer\<close> made while it holds exactly \<open>max_peers\<close> returns the empty
  string and leaves the registry as it was.
\<close>

theorem peers_within_cap:
  assumes "0 \<le> sint (max_peers (webrtc cfg))" and "reachable cfg s"
  shows "int (length (peers s)) \<le> sint (max_peers (webrtc cfg))
       \<and> distinct (map fst (peers s))
       \<and> (int (length (peers s)) = sint (max_peers (webrtc cfg)) \<longrightarrow>
            create_peer cfg rnd env s = ('''', s))"
  using reachable_inv[OF assms] create_peer_at_cap[OF assms(1), of s rnd env]
  by (simp add: registry_inv_def)

text \<open>
  With \<open>max_peers = -1\<close> the registry starts empty, and 0 is more than the cap.
\<close>

theorem peers_within_cap_counterexample:
  "reachable (default_config\<lparr> webrtc := (webrtc default_config)\<lparr> max_peers := - 1 \<rparr> \<rparr>)
     WebRtcServer_init
   \<and> \<not> int (length (peers WebRtcServer_init))
         \<le> sint (max_peers (webrtc
              (default_config\<lparr> webrtc := (webrtc default_config)\<lparr> max_peers := - 1 \<rparr> \<rparr>)))"
proof (rule conjI)
  show "reachable (default_config\<lparr> webrtc := (webrtc default_config)\<lparr> max_peers := - 1 \<rparr> \<rparr>)
     WebRtcServer_init" by (rule reachable_init)
next
  show "\<not> int (length (peers WebRtcServer_init))
         \<le> sint (max_peers (webrtc
              (default_config\<lparr> webrtc := (webrtc default_config)\<lparr> max_peers := - 1 \<rparr> \<rparr>)))"
    by (simp add: WebRtcServer_init_def)
qed

text \<open>With a cap of one, the second client is refused.\<close>

theorem peers_within_cap_witness:
  "create_peer (default_config\<lparr> webrtc := (webrtc default_config)\<lparr> max_peers := 1 \<rparr> \<rparr>)
      9 \<lparr> setup_error = None, start_timestamp = 0 \<rparr>
      (apply_op (default_config\<lparr> webrtc := (webrtc default_config)\<lparr> max_peers := 1 \<rparr> \<rparr>)
         (OpCreate 7 \<lparr> setup_error = None, start_timestamp = 0 \<rparr>) WebRtcServer_init)
    = ('''',
       apply_op (default_config\<lparr> webrtc := (webrtc default_config)\<lparr> max_peers := 1 \<rparr> \<rparr>)
         (OpCreate 7 \<lparr> setup_error = None, start_timestamp = 0 \<rparr>) WebRtcServer_init)"
proof -
  let ?cfg = "default_config\<lparr> webrtc := (webrtc default_config)\<lparr> max_peers := 1 \<rparr> \<rparr>"
  let ?s = "apply_op ?cfg (OpCreate 7 \<lparr> setup_error = None, start_timestamp = 0 \<rparr>)
              WebRtcServer_init"
  have h: "0 \<le> sint (max_peers (webrtc ?cfg))" by simp
  have r: "reachable ?cfg ?s" by (rule reachable_step[OF reachable_init])
  have l: "int (length (peers ?s)) = sint (max_peers (webrtc ?cfg))"
    by (simp add: create_peer_def WebRtcServer_init_def PeerConnection_ctor_def fetch_add_def
        Let_def word_sle_eq)
  from peers_within_cap[OF h r] l show ?thesis by blast
qed

text \<open>
  Claim C7. \<open>broadcast_nal\<close> calls \<open>send_h264_nal\<close> on exactly the sessions of the
  map for which \<open>is_connected\<close> holds, each once and with the given buffer and
  timestamp; every other session is left as it was.
\<close>

theorem broadcast_nal_connected_only:
  "fst (broadcast_nal dat ts s) = map fst (filter (\<lambda>(pid, p). is_connected p) (peers s))
   \<and> peers (snd (broadcast_nal dat ts s))
       = map (\<lambda>(pid, p). (pid, if is_connected p then send_h264_nal p dat ts else p)) (peers s)"
  by (simp add: broadcast_nal_def broadcast_loop_eq)

text \<open>Two sessions, one connected: only that one is sent to.\<close>

theorem broadcast_nal_connected_only_witness:
  "fst (broadcast_nal [0, 0, 0, 1, 101] 1000000
     \<lparr> peers =
         [(''peer-0000000a'',
           \<lparr> peer_id = ''peer-0000000a'', ssrc = 42,
             video_track = Some \<lparr> is_open = True, send_throws = False \<rparr>,
             rtp_timestamp = 0, needs_keyframe = True, connected = True, closed = False,
             stats = \<lparr> rtp_packets_sent = 0, bytes_sent = 0, state = ''connected'' \<rparr> \<rparr>),
          (''peer-0000000b'',
           \<lparr> peer_id = ''peer-0000000b'', ssrc = 43,
             video_track = Some \<lparr> is_open = False, send_throws = False \<rparr>,
             rtp_timestamp = 0, needs_keyframe = True, connected = False, closed = False,
             stats = \<lparr> rtp_packets_sent = 0, bytes_sent = 0, state = ''connecting'' \<rparr> \<rparr>)],
       running = True, next_ssrc = 44 \<rparr>)
   = [''peer-0000000a'']"
  using broadcast_nal_connected_only[of "[0, 0, 0, 1, 101]" 1000000
     "\<lparr> peers =
         [(''peer-0000000a'',
           \<lparr> peer_id = ''peer-0000000a'', ssrc = 42,
             video_track = Some \<lparr> is_open = True, send_throws = False \<rparr>,
             rtp_timestamp = 0, needs_keyframe = True, connected = True, closed = False,
             stats = \<lparr> rtp_packets_sent = 0, bytes_sent = 0, state = ''connected'' \<rparr> \<rparr>),
          (''peer-0000000b'',
           \<lparr> peer_id = ''peer-0000000b'', ssrc = 43,
             video_track = Some \<lparr> is_open = False, send_throws = False \<rparr>,
             rtp_timestamp = 0, needs_keyframe = True, connected = False, closed = False,
             stats = \<lparr> rtp_packets_sent = 0, bytes_sent = 0, state = ''connecting'' \<rparr> \<rparr>)],
       running = True, next_ssrc = 44 \<rparr>"]
  by (simp add: is_connected_def)

text \<open>
  Claim C10. When the constructor throws, \<open>create_peer\<close> returns the empty
  string and the map is unchanged; the signaling handler then answers exactly
  as it does for a full registry, with the same return value and the same
  \<open>Server full\<close> frame before closing the socket.
\<close>

theorem create_peer_ctor_throws:
  assumes "setup_error env = Some what"
  shows "fst (create_peer cfg rnd env s) = ''''
       \<and> peers (snd (create_peer cfg rnd env s)) = peers s
       \<and> fst (on_client_connected cfg rnd env s) =
           [Log Warn ''Rejected client: max peers reached'',
            Send (JObject [(''type'', JString ''error''),
                           (''message'', JString ''Server full, max peers reached'')]),
            Close]
       \<and> (word_sle (max_peers (webrtc cfg)) (word_of_nat (length (peers s')) :: c_int) \<longrightarrow>
            fst (create_peer cfg rnd' env' s') = fst (create_peer cfg rnd env s)
            \<and> fst (on_client_connected cfg rnd' env' s') = fst (on_client_connected cfg rnd env s))"
  using assms
  by (auto simp: create_peer_def on_client_connected_def PeerConnection_ctor_def fetch_add_def
      Let_def split: prod.splits sum.splits option.splits)

text \<open>An empty registry with the default cap of four, and a constructor that throws.\<close>

theorem create_peer_ctor_throws_witness:
  "create_peer default_config 7 \<lparr> setup_error = Some ''no transport'', start_timestamp = 0 \<rparr>
     WebRtcServer_init
     = ('''', WebRtcServer_init\<lparr> next_ssrc := 43 \<rparr>)
   \<and> fst (on_client_connected default_config 7
           \<lparr> setup_error = Some ''no transport'', start_timestamp = 0 \<rparr> WebRtcServer_init)
     = [Log Warn ''Rejected client: max peers reached'',
        Send (JObject [(''type'', JString ''error''),
                       (''message'', JString ''Server full, max peers reached'')]),
        Close]"
proof -
  let ?env = "\<lparr> setup_error = Some ''no transport'', start_timestamp = 0 \<rparr>"
  have h: "setup_error ?env = Some ''no transport''" by simp
  have c: "create_peer default_config 7 ?env WebRtcServer_init
             = ('''', WebRtcServer_init\<lparr> next_ssrc := 43 \<rparr>)"
    by (simp add: create_peer_def default_config_def WebRtcServer_init_def next_ssrc_init_def
        PeerConnection_ctor_def fetch_add_def Let_def word_sle_eq)
  from create_peer_ctor_throws[OF h, of default_config 7 WebRtcServer_init] c
  show ?thesis by blast
qed

text \<open>The SSRCs of the sessions in the map, while the counter has not wrapped.\<close>

lemma set_update_subset: "set (AList.update k v al) \<subseteq> insert (k, v) (set al)"
  by (induction al) auto

lemma distinct_map_update:
  assumes "distinct (map g al)" and "g (k, v) \<notin> g ` set al"
  shows "distinct (map g (AList.update k v al))"
  using assms
proof (induction al)
  case Nil
  then show ?case by simp
next
  case (Cons x al)
  obtain k' v' where x: "x = (k', v')" by (cases x)
  show ?case
  proof (cases "k' = k")
    case True
    then show ?thesis using Cons.prems x by auto
  next
    case False
    have "g x \<notin> g ` set (AList.update k v al)"
      using Cons.prems set_update_subset[of k v al] by auto
    then show ?thesis using Cons False x by auto
  qed
qed

lemma map_entry_ssrc:
  assumes "\<And>p. ssrc (f p) = ssrc p"
  shows "map (\<lambda>(pid, p). ssrc p) (AList.map_entry k f al) = map (\<lambda>(pid, p). ssrc p) al"
  by (induction al) (auto simp: assms)

lemma send_h264_nal_ssrc: "ssrc (send_h264_nal p dat ts) = ssrc p"
  by (simp add: send_h264_nal_def Let_def split: option.splits)

lemma broadcast_loop_ssrc:
  "map (\<lambda>(pid, p). ssrc p) (snd (broadcast_loop ps dat ts)) = map (\<lambda>(pid, p). ssrc p) ps"
  by (simp add: broadcast_loop_eq split_beta send_h264_nal_ssrc comp_def)

lemma ssrc_inv_create:
  assumes "ssrc_inv n s" and "43 + n < 2 ^ 32"
  shows "ssrc_inv (Suc n) (snd (create_peer cfg rnd env s))"
proof -
  let ?c = "next_ssrc s"
  have b: "unat ?c + 1 < 2 ^ 32" using assms by (simp add: ssrc_inv_def)
  then have u: "unat (?c + 1) = unat ?c + 1"
    by (simp add: unat_word_ariths)
  have all: "list_all (\<lambda>x. unat x < unat ?c) (map (\<lambda>(pid, p). ssrc p) (peers s))"
    and d: "distinct (map (\<lambda>(pid, p). ssrc p) (peers s))"
    using assms(1) by (simp_all add: ssrc_inv_def)
  have all': "list_all (\<lambda>x. unat x < unat ?c + 1) (map (\<lambda>(pid, p). ssrc p) (peers s))"
    using all by (auto simp: list_all_iff)
  show ?thesis
  proof (cases "fst (PeerConnection_ctor (generate_peer_id rnd) env ?c)")
    case (Inl e)
    then show ?thesis
      using assms(1) u all'
      by (auto simp: create_peer_def ssrc_inv_def Let_def PeerConnection_ctor_def fetch_add_def
          split: prod.splits sum.splits option.splits)
  next
    case (Inr peer)
    then have sp: "ssrc peer = ?c"
      by (auto simp: PeerConnection_ctor_def fetch_add_def split: option.splits)
    let ?g = "\<lambda>(pid, p). ssrc p"
    have fresh: "?g (generate_peer_id rnd, peer) \<notin> ?g ` set (peers s)"
      using all sp by (auto simp: list_all_iff)
    have d': "distinct (map ?g (AList.update (generate_peer_id rnd) peer (peers s)))"
      by (rule distinct_map_update[OF d fresh])
    have a'': "list_all (\<lambda>x. unat x < unat ?c + 1)
                 (map ?g (AList.update (generate_peer_id rnd) peer (peers s)))"
      using all' sp set_update_subset[of "generate_peer_id rnd" peer "peers s"]
      by (auto simp: list_all_iff)
    have n': "snd (PeerConnection_ctor (generate_peer_id rnd) env ?c) = ?c + 1"
      by (simp add: PeerConnection_ctor_def fetch_add_def split: option.splits)
    show ?thesis
      using Inr assms(1) u all' d' a'' n'
      by (auto simp: create_peer_def ssrc_inv_def Let_def split: prod.splits sum.splits)
  qed
qed

lemma ssrc_inv_mono: "ssrc_inv n s \<Longrightarrow> ssrc_inv (Suc n) s"
  by (simp add: ssrc_inv_def)

lemma ssrc_inv_step:
  assumes "ssrc_inv n s" and "43 + n < 2 ^ 32"
  shows "ssrc_inv (Suc n) (apply_op cfg ev s)"
proof (cases ev)
  case (OpCreate rnd env)
  then show ?thesis using ssrc_inv_create[OF assms] by simp
next
  case (OpRemove pid)
  then show ?thesis
    using assms(1)
    by (auto simp: ssrc_inv_def remove_peer_def AList.delete_eq list_all_iff distinct_map_filter)
next
  case (OpAnswer pid sdp)
  have "map (\<lambda>(pid, p). ssrc p) (AList.map_entry pid (\<lambda>p. handle_answer p sdp) (peers s))
          = map (\<lambda>(pid, p). ssrc p) (peers s)"
    by (rule map_entry_ssrc) (simp add: handle_answer_def)
  then show ?thesis
    using assms(1) OpAnswer
    by (simp add: ssrc_inv_def server_handle_answer_def)
next
  case (OpBroadcast dat ts)
  then show ?thesis
    using assms(1) broadcast_loop_ssrc[of "peers s" dat ts]
    by (simp add: ssrc_inv_def broadcast_nal_def split_beta)
next
  case OpCleanup
  then show ?thesis
    using assms(1)
    by (auto simp: ssrc_inv_def cleanup_pass_def list_all_iff distinct_map_filter)
next
  case OpStart
  then show ?thesis using assms(1) by (simp add: ssrc_inv_def server_start_def)
next
  case OpStop
  then show ?thesis using assms(1) by (simp add: ssrc_inv_def server_stop_def)
next
  case (OpStateChange pid st)
  have "map (\<lambda>(pid, p). ssrc p) (AList.map_entry pid (\<lambda>p. onStateChange p st) (peers s))
          = map (\<lambda>(pid, p). ssrc p) (peers s)"
    by (rule map_entry_ssrc) (simp add: onStateChange_def)
  then show ?thesis
    using assms(1) OpStateChange by (simp add: ssrc_inv_def)
next
  case (OpTrackOpen pid)
  have "map (\<lambda>(pid, p). ssrc p) (AList.map_entry pid onOpen (peers s))
          = map (\<lambda>(pid, p). ssrc p) (peers s)"
    by (rule map_entry_ssrc) (simp add: onOpen_def)
  then show ?thesis
    using assms(1) OpTrackOpen by (simp add: ssrc_inv_def)
next
  case (OpTransport pid opn thr)
  have "map (\<lambda>(pid, p). ssrc p) (AList.map_entry pid (\<lambda>p. track_changed p opn thr) (peers s))
          = map (\<lambda>(pid, p). ssrc p) (peers s)"
    by (rule map_entry_ssrc) (simp add: track_changed_def)
  then show ?thesis
    using assms(1) OpTransport by (simp add: ssrc_inv_def)
qed

lemma ssrc_inv_fold:
  assumes "ssrc_inv n s" and "42 + n + length ops < 2 ^ 32"
  shows "ssrc_inv (n + length ops) (fold (apply_op cfg) ops s)"
  using assms
proof (induction ops arbitrary: n s)
  case Nil
  then show ?case by simp
next
  case (Cons ev ops)
  have "ssrc_inv (Suc n) (apply_op cfg ev s)"
    using Cons.prems by (intro ssrc_inv_step) simp_all
  from Cons.IH[OF this] Cons.prems(2) show ?case by simp
qed

lemma reachable_run_ops: "reachable cfg s \<longleftrightarrow> (\<exists>ops. s = run_ops cfg ops)"
proof
  assume "reachable cfg s"
  then show "\<exists>ops. s = run_ops cfg ops"
  proof (induction rule: reachable.induct)
    case reachable_init
    have "WebRtcServer_init = run_ops cfg []" by (simp add: run_ops_def)
    then show ?case by blast
  next
    case (reachable_step s ev)
    then obtain ops where "s = run_ops cfg ops" by blast
    then have "apply_op cfg ev s = run_ops cfg (ops @ [ev])" by (simp add: run_ops_def)
    then show ?case by blast
  qed
next
  assume "\<exists>ops. s = run_ops cfg ops"
  then obtain ops where s: "s = run_ops cfg ops" by blast
  have "reachable cfg (run_ops cfg ops)"
  proof (induction ops rule: rev_induct)
    case Nil
    show ?case by (simp add: run_ops_def reachable_init)
  next
    case (snoc ev ops)
    then show ?case by (simp add: run_ops_def reachable_step)
  qed
  then show "reachable cfg s" using s by simp
qed

lemma run_ops_distinct_ssrc:
  assumes "42 + length ops < 2 ^ 32"
  shows "distinct (map (\<lambda>(pid, p). ssrc p) (peers (run_ops cfg ops)))"
proof -
  have "ssrc_inv 0 WebRtcServer_init"
    by (simp add: ssrc_inv_def WebRtcServer_init_def next_ssrc_init_def)
  from ssrc_inv_fold[OF this, of ops cfg] assms show ?thesis
    by (simp add: run_ops_def ssrc_inv_def)
qed

lemma failing_creates:
  assumes "setup_error env = Some w"
    and "\<not> word_sle (max_peers (webrtc cfg)) (word_of_nat (length (peers s)) :: c_int)"
  shows "fold (apply_op cfg) (replicate n (OpCreate rnd env)) s
           = s\<lparr> next_ssrc := next_ssrc s + of_nat n \<rparr>"
  using assms(2)
proof (induction n arbitrary: s)
  case 0
  show ?case by simp
next
  case (Suc n)
  have step: "apply_op cfg (OpCreate rnd env) s = s\<lparr> next_ssrc := next_ssrc s + 1 \<rparr>"
    using assms(1) Suc.prems
    by (simp add: create_peer_def PeerConnection_ctor_def fetch_add_def Let_def)
  have cap: "\<not> word_sle (max_peers (webrtc cfg))
                 (word_of_nat (length (peers (s\<lparr> next_ssrc := next_ssrc s + 1 \<rparr>))) :: c_int)"
    using Suc.prems by simp
  show ?case using Suc.IH[OF cap] by (simp add: step add.assoc del: apply_op.simps)
qed

text \<open>
  Claim C6, as amended. The counter starts at 42 and every construction takes
  the current value and advances the counter by one modulo \<open>2^32\<close>: the
  \<open>i\<close>-th session constructed has SSRC \<open>42 + i\<close> in 32 bits. Two sessions whose
  constructions are fewer than \<open>2^32\<close> apart have different SSRCs, the SSRCs
  increase strictly until the counter wraps, and after fewer than \<open>2^32 - 42\<close>
  operations on the registry no two sessions in the peer map have the same SSRC.
\<close>

theorem ssrc_distinct:
  assumes "i < j" and "j < length xs"
    and "fst (construct_run xs next_ssrc_init) ! i = Inr a"
    and "fst (construct_run xs next_ssrc_init) ! j = Inr b"
  shows "ssrc a = 42 + of_nat i
       \<and> (j - i < 2 ^ 32 \<longrightarrow> ssrc a \<noteq> ssrc b)
       \<and> (j + 42 < 2 ^ 32 \<longrightarrow> ssrc a < ssrc b)
       \<and> (42 + length ops < 2 ^ 32 \<longrightarrow>
            distinct (map (\<lambda>(pid, p). ssrc p) (peers (run_ops cfg ops))))"
proof -
  have a: "ssrc a = 42 + of_nat i" and b: "ssrc b = 42 + of_nat j"
    using construct_run_ssrc[OF _ assms(3)] construct_run_ssrc[OF assms(2,4)] assms(1,2)
    by (simp_all add: next_ssrc_init_def)
  have ne: "j - i < 2 ^ 32 \<Longrightarrow> ssrc a \<noteq> ssrc b"
    using of_nat_neq_32[OF assms(1)] by (simp add: a b)
  have lt: "ssrc a < ssrc b" if "j + 42 < 2 ^ 32"
  proof -
    have "unat (42 + of_nat i :: u32) = 42 + i" "unat (42 + of_nat j :: u32) = 42 + j"
      using that assms(1) by (simp_all add: unat_word_ariths unsigned_of_nat take_bit_eq_mod)
    then show ?thesis using assms(1) by (simp add: a b word_less_nat_alt)
  qed
  show ?thesis using a ne lt run_ops_distinct_ssrc[of ops cfg] by blast
qed

text \<open>
  After 4294967253 constructions the counter stands at \<open>2^32 - 1\<close> and the next
  construction takes it to 0. And a registry whose first client stays while
  4294967295 constructions fail holds, after the next client, two sessions with
  SSRC 42.
\<close>

theorem ssrc_distinct_counterexample:
  "\<not> snd (construct_run (replicate 4294967253 ('''', \<lparr> setup_error = None, start_timestamp = 0 \<rparr>))
          next_ssrc_init)
      < snd (construct_run (replicate 4294967254 ('''', \<lparr> setup_error = None, start_timestamp = 0 \<rparr>))
          next_ssrc_init)
   \<and> map (ssrc \<circ> snd) (peers (run_ops default_config
         ([OpCreate 10 \<lparr> setup_error = None, start_timestamp = 0 \<rparr>]
          @ replicate 4294967295
              (OpCreate 11 \<lparr> setup_error = Some ''no transport'', start_timestamp = 0 \<rparr>)
          @ [OpCreate 12 \<lparr> setup_error = None, start_timestamp = 0 \<rparr>])))
     = [42, 42]"
proof (rule conjI)
  show "\<not> snd (construct_run (replicate 4294967253 ('''', \<lparr> setup_error = None, start_timestamp = 0 \<rparr>))
          next_ssrc_init)
      < snd (construct_run (replicate 4294967254 ('''', \<lparr> setup_error = None, start_timestamp = 0 \<rparr>))
          next_ssrc_init)"
    by (simp add: construct_run_counter next_ssrc_init_def)
next
  let ?e = "\<lparr> setup_error = None, start_timestamp = 0 \<rparr>"
  let ?f = "\<lparr> setup_error = Some ''no transport'', start_timestamp = 0 \<rparr>"
  let ?s1 = "apply_op default_config (OpCreate 10 ?e) WebRtcServer_init"
  have s1: "?s1 = \<lparr> peers = [(''peer-0000000a'',
                \<lparr> peer_id = ''peer-0000000a'', ssrc = 42,
                  video_track = Some \<lparr> is_open = False, send_throws = False \<rparr>,
                  rtp_timestamp = 0, needs_keyframe = True, connected = False, closed = False,
                  stats = \<lparr> rtp_packets_sent = 0, bytes_sent = 0, state = ''new'' \<rparr> \<rparr>)],
              running = False, next_ssrc = 43 \<rparr>"
    by (simp add: create_peer_def default_config_def WebRtcServer_init_def next_ssrc_init_def
        PeerConnection_ctor_def fetch_add_def generate_peer_id_def hex_digit_def Let_def
        word_sle_eq)
  have cap: "\<not> word_sle (max_peers (webrtc default_config))
                 (word_of_nat (length (peers ?s1)) :: c_int)"
    unfolding s1 by (simp add: default_config_def word_sle_eq)
  have f: "setup_error ?f = Some ''no transport''" by simp
  have s2: "fold (apply_op default_config) (replicate 4294967295 (OpCreate 11 ?f)) ?s1
              = ?s1\<lparr> next_ssrc := next_ssrc ?s1 + of_nat 4294967295 \<rparr>"
    by (rule failing_creates[OF f cap])
  have n2: "next_ssrc ?s1 + of_nat 4294967295 = 42" unfolding s1 by simp
  have "run_ops default_config
         ([OpCreate 10 ?e] @ replicate 4294967295 (OpCreate 11 ?f) @ [OpCreate 12 ?e])
        = apply_op default_config (OpCreate 12 ?e) (?s1\<lparr> next_ssrc := 42 \<rparr>)"
    by (simp only: run_ops_def fold_append comp_apply fold.simps id_apply s2 n2)
  also have "map (ssrc \<circ> snd) (peers \<dots>) = [42, 42]"
    unfolding s1
    by (simp add: create_peer_def default_config_def
        PeerConnection_ctor_def fetch_add_def generate_peer_id_def hex_digit_def Let_def
        word_sle_eq)
  finally show "map (ssrc \<circ> snd) (peers (run_ops default_config
         ([OpCreate 10 ?e] @ replicate 4294967295 (OpCreate 11 ?f) @ [OpCreate 12 ?e])))
     = [42, 42]" .
qed

text \<open>
  Three constructions, the second failing: SSRCs 42 and 44 are handed out, and
  the registry that made them holds two sessions with different SSRCs.
\<close>

theorem ssrc_distinct_witness:
  "ssrc (projr (fst (construct_run
       [(''peer-0000000a'', \<lparr> setup_error = None, start_timestamp = 0 \<rparr>),
        (''peer-0000000b'', \<lparr> setup_error = Some ''no transport'', start_timestamp = 0 \<rparr>),
        (''peer-0000000c'', \<lparr> setup_error = None, start_timestamp = 7 \<rparr>)]
       next_ssrc_init) ! 0)) = 42
   \<and> ssrc (projr (fst (construct_run
       [(''peer-0000000a'', \<lparr> setup_error = None, start_timestamp = 0 \<rparr>),
        (''peer-0000000b'', \<lparr> setup_error = Some ''no transport'', start_timestamp = 0 \<rparr>),
        (''peer-0000000c'', \<lparr> setup_error = None, start_timestamp = 7 \<rparr>)]
       next_ssrc_init) ! 0))
     < ssrc (projr (fst (construct_run
       [(''peer-0000000a'', \<lparr> setup_error = None, start_timestamp = 0 \<rparr>),
        (''peer-0000000b'', \<lparr> setup_error = Some ''no transport'', start_timestamp = 0 \<rparr>),
        (''peer-0000000c'', \<lparr> setup_error = None, start_timestamp = 7 \<rparr>)]
       next_ssrc_init) ! 2))
   \<and> distinct (map (\<lambda>(pid, p). ssrc p) (peers (run_ops default_config
       [OpCreate 10 \<lparr> setup_error = None, start_timestamp = 0 \<rparr>,
        OpCreate 11 \<lparr> setup_error = Some ''no transport'', start_timestamp = 0 \<rparr>,
        OpStateChange ''peer-0000000a'' Connected,
        OpCreate 12 \<lparr> setup_error = None, start_timestamp = 7 \<rparr>])))"
proof -
  let ?xs = "[(''peer-0000000a'', \<lparr> setup_error = None, start_timestamp = 0 \<rparr>),
        (''peer-0000000b'', \<lparr> setup_error = Some ''no transport'', start_timestamp = 0 \<rparr>),
        (''peer-0000000c'', \<lparr> setup_error = None, start_timestamp = 7 \<rparr>)]"
  let ?rs = "fst (construct_run ?xs next_ssrc_init)"
  let ?ops = "[OpCreate 10 \<lparr> setup_error = None, start_timestamp = 0 \<rparr>,
        OpCreate 11 \<lparr> setup_error = Some ''no transport'', start_timestamp = 0 \<rparr>,
        OpStateChange ''peer-0000000a'' Connected,
        OpCreate 12 \<lparr> setup_error = None, start_timestamp = 7 \<rparr>]"
  have a: "?rs ! 0 = Inr (projr (?rs ! 0))"
    by (simp add: construct_run_Cons PeerConnection_ctor_def fetch_add_def)
  have b: "?rs ! 2 = Inr (projr (?rs ! 2))"
    by (simp add: construct_run_Cons PeerConnection_ctor_def fetch_add_def)
  have ij: "(0::nat) < 2" and jl: "2 < length ?xs" by simp_all
  have w: "(2::nat) + 42 < 2 ^ 32" and o: "42 + length ?ops < 2 ^ 32" by simp_all
  note t = ssrc_distinct[OF ij jl a b, of ?ops default_config]
  have e: "ssrc (projr (?rs ! 0)) = 42" using t by (simp del: construct_run.simps)
  have l: "ssrc (projr (?rs ! 0)) < ssrc (projr (?rs ! 2))" using t w by blast
  have d: "distinct (map (\<lambda>(pid, p). ssrc p) (peers (run_ops default_config ?ops)))"
    using t o by blast
  show ?thesis by (intro conjI e l d)
qed

section \<open>Properties of the signaling handler\<close>

lemma no_bitrate_callback: "InvokeBitrateCb k \<notin> set (on_client_message parse pid message)"
  by (auto simp: on_client_message_def invalid_json_def split: sum.splits if_splits)

text \<open>
  Claim C1. The claim asks that a frame of type \<open>bitrate\<close> with \<open>kbps = N\<close>
  forwards \<open>N\<close> to the bitrate callback. The handler has no branch for that type: the
  frame with \<open>N = 12000\<close> ends in the debug log for unknown types, and no frame
  whatever makes the handler invoke the callback.
\<close>

theorem bitrate_hint_not_forwarded:
  "on_client_message
      (\<lambda>m. Inr (JObject [(''type'', JString ''bitrate''), (''kbps'', JInt 12000)]))
      pid message = [Log Debug ''Unknown message type'']
   \<and> InvokeBitrateCb k \<notin> set (on_client_message parse pid' message')"
  by (simp add: no_bitrate_callback) (simp add: on_client_message_def)

section \<open>Properties of the media pipeline\<close>

lemma loop_head_stop: "stop_requested p \<Longrightarrow> thread (loop_head p) = Some Exited"
  by (simp add: loop_head_def)

lemma worker_step_stop_requested [simp]:
  "stop_requested (worker_step fl cfg env p) = stop_requested p"
  by (simp add: worker_step_def build_pipeline_def attempt_reconnect_def sleep_loop_def
      loop_head_def bus_loop_def Let_def
      split: option.splits worker_pc.splits build_result.splits prod.splits)

text \<open>Without a stop request the worker never returns, whatever the configuration.\<close>

lemma worker_step_no_exit:
  assumes "\<not> stop_requested p" and "thread p \<noteq> Some Exited" and "thread p \<noteq> None"
  shows "thread (worker_step fl cfg env p) \<noteq> Some Exited
       \<and> thread (worker_step fl cfg env p) \<noteq> None"
  using assms
  by (auto simp: worker_step_def build_pipeline_def attempt_reconnect_def sleep_loop_def
      loop_head_def bus_loop_def Let_def
      split: option.splits worker_pc.splits build_result.splits prod.splits)

lemma worker_run_no_exit:
  assumes "\<not> stop_requested p" and "thread p \<noteq> Some Exited" and "thread p \<noteq> None"
  shows "thread (worker_run fl cfg envs p) \<noteq> Some Exited
       \<and> thread (worker_run fl cfg envs p) \<noteq> None
       \<and> \<not> stop_requested (worker_run fl cfg envs p)"
  using assms
proof (induction envs arbitrary: p)
  case Nil
  then show ?case by simp
next
  case (Cons env envs)
  have "thread (worker_step fl cfg env p) \<noteq> Some Exited"
    and "thread (worker_step fl cfg env p) \<noteq> None"
    using worker_step_no_exit[OF Cons.prems] by simp_all
  then show ?case using Cons.IH[of "worker_step fl cfg env p"] Cons.prems(1) by simp
qed

lemma worker_run_append:
  "worker_run fl cfg (xs @ ys) p = worker_run fl cfg ys (worker_run fl cfg xs p)"
  by (induction xs arbitrary: p) simp_all

text \<open>A failed build, and the one sleep of a 100 ms back-off after it.\<close>

lemma backoff_cycle:
  assumes "thread p = Some InBuild" and "\<not> stop_requested p"
    and "build_res env = ParseError left" and "reconnect_interval_ms (rtsp cfg) = 100"
  shows "thread (worker_run fl cfg [env, env'] p) = Some InBuild
       \<and> \<not> stop_requested (worker_run fl cfg [env, env'] p)
       \<and> reconnect_count (pl_stats (worker_run fl cfg [env, env'] p))
           = reconnect_count (pl_stats p) + 1"
  using assms
  by (simp add: worker_step_def build_pipeline_def attempt_reconnect_def sleep_loop_def
      loop_head_def Let_def word_sless_alt)

text \<open>
  Claim C3. The claim asks that with \<open>reconnect_max_attempts = N > 0\<close> the worker
  exits after \<open>N\<close> faults. With \<open>N = 1\<close>, a back-off of 100 ms and a source whose
  graph fails to build every time, the worker has counted three faults after
  six steps, no stop was requested, and it is building for the fourth time.
\<close>

theorem worker_ignores_max_attempts:
  "map_option
     (\<lambda>p. let env = \<lparr> build_res = ParseError False, play_ok = False, bus_msg = None \<rparr>;
              q = worker_run fl
                    (default_config\<lparr> rtsp := (rtsp default_config)
                       \<lparr> url := ''rtsp://camera/live'', reconnect_interval_ms := 100,
                         reconnect_max_attempts := 1 \<rparr> \<rparr>)
                    ([env, env] @ [env, env] @ [env, env]) p
          in (thread q, reconnect_count (pl_stats q), stop_requested q))
     (start RtspPipeline_init)
   = Some (Some InBuild, 3, False)"
proof -
  let ?cfg = "default_config\<lparr> rtsp := (rtsp default_config)
                \<lparr> url := ''rtsp://camera/live'', reconnect_interval_ms := 100,
                  reconnect_max_attempts := 1 \<rparr> \<rparr>"
  let ?env = "\<lparr> build_res = ParseError False, play_ok = False, bus_msg = None \<rparr>"
  let ?ini = "loop_head (RtspPipeline_init\<lparr> stop_requested := False \<rparr>)"
  let ?p1 = "worker_run fl ?cfg [?env, ?env] ?ini"
  let ?p2 = "worker_run fl ?cfg [?env, ?env] ?p1"
  let ?p3 = "worker_run fl ?cfg [?env, ?env] ?p2"
  have i: "reconnect_interval_ms (rtsp ?cfg) = 100" by simp
  have b: "build_res ?env = ParseError False" by simp
  have s: "start RtspPipeline_init = Some ?ini"
    by (simp add: start_def RtspPipeline_init_def)
  have t0: "thread ?ini = Some InBuild" and n0: "\<not> stop_requested ?ini"
    and c0: "reconnect_count (pl_stats ?ini) = 0"
    by (simp_all add: loop_head_def RtspPipeline_init_def)
  note k1 = backoff_cycle[OF t0 n0 b i, of fl ?env]
  note k2 = backoff_cycle[OF conjunct1[OF k1] conjunct1[OF conjunct2[OF k1]] b i, of fl ?env]
  note k3 = backoff_cycle[OF conjunct1[OF k2] conjunct1[OF conjunct2[OF k2]] b i, of fl ?env]
  have "thread ?p3 = Some InBuild" and "\<not> stop_requested ?p3"
    and "reconnect_count (pl_stats ?p3) = 3"
    using k1 k2 k3 c0 by simp_all
  then show ?thesis
    by (simp only: s worker_run_append Let_def option.map prod.inject simp_thms)
qed

text \<open>With a stop request the worker returns at its next step, not running.\<close>

lemma worker_step_exits:
  assumes "stop_requested p" and "thread p = Some pc"
  shows "thread (worker_step fl cfg env p) = Some Exited"
  using assms
  by (auto simp: worker_step_def build_pipeline_def attempt_reconnect_def sleep_loop_def
      loop_head_def bus_loop_def Let_def
      split: option.splits worker_pc.splits build_result.splits prod.splits)

lemma worker_step_not_running:
  assumes "stop_requested p" and "\<not> pl_running p"
  shows "\<not> pl_running (worker_step fl cfg env p)"
  using assms
  by (auto simp: worker_step_def build_pipeline_def attempt_reconnect_def sleep_loop_def
      loop_head_def bus_loop_def Let_def
      split: option.splits worker_pc.splits build_result.splits prod.splits)

lemma join_stop:
  assumes "stop_requested p" and "thread p = Some pc"
  shows "join fl cfg envs p =
           Some ((if pc = Exited then p else worker_step fl cfg (envs 0) p)\<lparr> thread := None \<rparr>)"
proof (cases "pc = Exited")
  case True
  then show ?thesis using assms by (subst join.simps) simp
next
  case False
  have ex: "thread (worker_step fl cfg (envs 0) p) = Some Exited"
    by (rule worker_step_exits[OF assms])
  have "join fl cfg envs p = join fl cfg (\<lambda>n. envs (Suc n)) (worker_step fl cfg (envs 0) p)"
    using assms False by (subst join.simps) simp
  also have "\<dots> = Some ((worker_step fl cfg (envs 0) p)\<lparr> thread := None \<rparr>)"
    using ex by (subst join.simps) simp
  finally show ?thesis using False by simp
qed

lemma stop_result:
  "\<exists>p'. stop fl cfg envs p = Some p' \<and> thread p' = None \<and> \<not> pipeline_ptr p'
        \<and> \<not> pl_running p' \<and> stop_requested p'"
proof (cases "thread p")
  case None
  then show ?thesis by (simp add: stop_def request_stop_def Let_def)
next
  case (Some pc)
  let ?p1 = "request_stop p"
  have s: "stop_requested ?p1" and t: "thread ?p1 = Some pc" and r: "\<not> pl_running ?p1"
    using Some by (simp_all add: request_stop_def)
  have nr: "\<not> pl_running (worker_step fl cfg (envs 0) ?p1)"
    by (rule worker_step_not_running[OF s r])
  show ?thesis
    using Some nr join_stop[OF s t, of fl cfg envs] s t r
    by (simp add: stop_def Let_def)
qed

lemma stop_fixpoint:
  assumes "thread p = None" and "\<not> pipeline_ptr p" and "\<not> pl_running p" and "stop_requested p"
  shows "stop fl cfg envs p = Some p"
proof -
  have "request_stop p = p" using assms by (simp add: request_stop_def)
  then show ?thesis using assms by (simp add: stop_def Let_def)
qed

text \<open>
  Claim C9. From every state of the pipeline \<open>stop\<close> returns, and a second \<open>stop\<close>
  returns the state the first one left: the worker joined, the graph torn down,
  the pipeline not running.
\<close>

theorem stop_idempotent:
  "\<exists>p'. stop fl cfg envs p = Some p' \<and> stop fl cfg envs' p' = Some p'
        \<and> thread p' = None \<and> \<not> pipeline_ptr p' \<and> \<not> pl_running p'"
proof -
  obtain p' where p': "stop fl cfg envs p = Some p'" "thread p' = None" "\<not> pipeline_ptr p'"
      "\<not> pl_running p'" "stop_requested p'"
    using stop_result[of fl cfg envs p] by blast
  have "stop fl cfg envs' p' = Some p'" by (rule stop_fixpoint[OF p'(2-5)])
  with p' show ?thesis by blast
qed

text \<open>A pipeline just started, stopped twice.\<close>

theorem stop_idempotent_witness:
  "\<exists>p'. stop \<lparr> enable_test_mode = False, jetson_platform = False \<rparr> default_config
            (\<lambda>n. \<lparr> build_res = Built, play_ok = True, bus_msg = None \<rparr>)
            (loop_head (RtspPipeline_init\<lparr> stop_requested := False \<rparr>)) = Some p'
        \<and> stop \<lparr> enable_test_mode = False, jetson_platform = False \<rparr> default_config
            (\<lambda>n. \<lparr> build_res = Built, play_ok = True, bus_msg = Some MsgEos \<rparr>) p' = Some p'
        \<and> thread p' = None \<and> \<not> pipeline_ptr p' \<and> \<not> pl_running p'"
  by (rule stop_idempotent)
















end
